theory Spec2Isabelle
  imports Complex_Main "HOL-Library.Log_Nat"
begin

section \<open>Banana Clicker: the economy engine and its persistence, from src/src/App.tsx\<close>

text \<open>
  The component \<open>App\<close> keeps its state in React hooks and in the browser's
  \<open>localStorage\<close>. The model below makes both explicit: a record \<open>world\<close> holds the
  hook values, the storage and the log of \<open>alert\<close> calls, and every event handler of
  the source is a function from \<open>world\<close> to \<open>world\<close> (or to \<open>exn + world\<close> when the
  handler can throw).

  Modelling decisions, each local to one definition below:
  \<^item> A JavaScript \<open>number\<close> is a real number; \<open>NaN\<close> and the infinities are outside
    the model. The two additions to the banana balance (lines 127 and 135) are rounded
    as IEEE-754 binary64 addition rounds, by \<open>binary64\<close> below. The subtraction of a cost
    (line 158) and the steps by one on diamonds and slot count (lines 117, 118, 126) are
    written without rounding: binary64 performs them exactly on integer counts up to
    \<open>2^53\<close> and, for the costs of the catalog, on balances below \<open>2^53\<close>.
  \<^item> Handlers run one at a time, each against the state the previous one left (React
    renders between two discrete events), so a handler reads the hook values of its
    closure and the functional updaters \<open>prev => ...\<close> see the same values.
  \<^item> The user-visible strings of the source are Russian; the \<open>alert\<close> messages are
    modelled as a datatype, one constructor per message, and the display-only fields
    of an upgrade (\<open>name\<close>, \<open>description\<close>, \<open>image\<close>) are left out.
\<close>

subsection \<open>Data\<close>

type_synonym number = real

text \<open>
  The result of an arithmetic operation on two binary64 numbers is the exact result
  rounded to the nearest binary64 number, ties to the even significand. \<open>binary64 x\<close>
  is that rounding of the real \<open>x\<close>: with \<open>ilog2 \<bar>x\<bar>\<close> the exponent of \<open>x\<close>, the
  significand \<open>\<bar>x\<bar> / 2^e\<close> for \<open>e = ilog2 \<bar>x\<bar> - 52\<close> is rounded to an integer of at most
  53 bits (\<open>e\<close> is at least \<open>-1074\<close>, the exponent of the subnormal numbers). Overflow to
  infinity, at \<open>2^1024\<close>, is outside the model.
\<close>

definition pow2 :: "int \<Rightarrow> real" where
  "pow2 e = (if 0 \<le> e then 2 ^ nat e else 1 / 2 ^ nat (- e))"

text \<open>\<open>ilog2 x\<close> is the integer \<open>k\<close> with \<open>2^k \<le> x < 2^(k+1)\<close>, for \<open>x > 0\<close>.\<close>

definition ilog2 :: "real \<Rightarrow> int" where
  "ilog2 x = (if 1 \<le> x then bitlen \<lfloor>x\<rfloor> - 1 else - bitlen (\<lceil>1 / x\<rceil> - 1))"

definition roundTiesToEven :: "real \<Rightarrow> int" where
  "roundTiesToEven y =
     (let f = \<lfloor>y\<rfloor>; r = y - of_int f in
      if r < 1 / 2 then f else if 1 / 2 < r then f + 1 else if even f then f else f + 1)"

definition binary64 :: "real \<Rightarrow> real" where
  "binary64 x =
     (if x = 0 then 0
      else let e = max (ilog2 \<bar>x\<bar> - 52) (- 1074)
           in sgn x * of_int (roundTiesToEven (\<bar>x\<bar> / pow2 e)) * pow2 e)"

text \<open>\<open>interface Upgrade\<close> (lines 11-18), fields \<open>id\<close>, \<open>cost\<close> and \<open>type\<close>.\<close>

datatype upgrade_type = Multiplier | Bonus | Secret

record Upgrade =
  upgrade_id :: string
  cost :: number
  upgrade_type :: upgrade_type

text \<open>\<open>INITIAL_UPGRADES\<close> (lines 26-51).\<close>

definition INITIAL_UPGRADES :: "Upgrade list" where
  "INITIAL_UPGRADES =
     [\<lparr>upgrade_id = ''double_banana'', cost = 10, upgrade_type = Multiplier\<rparr>,
      \<lparr>upgrade_id = ''soup'', cost = 100, upgrade_type = Bonus\<rparr>,
      \<lparr>upgrade_id = ''plus_1488'', cost = 5242, upgrade_type = Bonus\<rparr>]"

text \<open>\<open>interface SaveData\<close> (lines 20-24): what one save slot holds.\<close>

record SaveData =
  save_bananas :: number
  save_upgrades :: "string list"
  lastSaved :: string

text \<open>
  The object \<open>{ diamonds, slotCount }\<close> stored under \<open>banana_clicker_meta\<close> (line 90)
  and destructured on line 76. A property the parsed object lacks reads as
  \<open>undefined\<close>, here \<open>None\<close>.
\<close>

record MetaData =
  meta_diamonds :: "number option"
  meta_slotCount :: "number option"

text \<open>
  A string kept in \<open>localStorage\<close> for a key that the source reads with \<open>JSON.parse\<close>,
  classified by what the source can observe of it: the empty string (falsy in
  \<open>if (rawData)\<close>), a non-empty string that \<open>JSON.parse\<close> rejects, or the string
  \<open>JSON.stringify v\<close>, which is not empty and which \<open>JSON.parse\<close> reads back as \<open>v\<close>.
  A string that parses is taken to have the shape of the TypeScript type the source
  gives it (\<open>SaveData\<close>, the meta object, \<open>string[]\<close>).
\<close>

datatype 'a json_text = EmptyText | Unparseable | Stringified 'a

datatype exn = SyntaxError

fun JSON_parse :: "'a json_text \<Rightarrow> exn + 'a" where
  "JSON_parse (Stringified v) = Inr v"
| "JSON_parse Unparseable = Inl SyntaxError"
| "JSON_parse EmptyText = Inl SyntaxError"

definition JSON_stringify :: "'a \<Rightarrow> 'a json_text" where
  "JSON_stringify v = Stringified v"

text \<open>
  \<open>localStorage\<close>, one field per key the source uses; \<open>None\<close> is what \<open>getItem\<close>
  returns as \<open>null\<close>. The key \<open>banana_clicker_slot_${slotId}\<close> is a family indexed
  by the slot number. \<open>banana_clicker_count\<close> is read with \<open>parseFloat\<close>, not with
  \<open>JSON.parse\<close>, and is kept as the raw string.
\<close>

record localStorage =
  banana_clicker_meta :: "MetaData json_text option"
  banana_clicker_count :: "string option"
  banana_clicker_upgrades :: "string list json_text option"
  banana_clicker_slot :: "nat \<Rightarrow> SaveData json_text option"

text \<open>
  The calls of \<open>alert\<close>:
  \<^item> \<open>SavedToSlot n\<close>: "Progress sokhranen v yacheyku n!" (progress saved to slot n), line 100;
  \<^item> \<open>LoadedFromSlot n\<close>: "Progress zagruzhen iz yacheyki n!" (progress loaded from slot n), line 109;
  \<^item> \<open>SlotIsEmpty\<close>: "Eta yacheyka pusta!" (this slot is empty), line 111;
  \<^item> \<open>NotEnoughDiamonds\<close>: "Nedostatochno almazov!" (not enough diamonds), lines 120 and 130;
  \<^item> \<open>ExchangeDone\<close>: "Obmen proizveden! +200,000,000 bananov" (exchange done), line 128.
\<close>

datatype alert = SavedToSlot nat | LoadedFromSlot nat | SlotIsEmpty | NotEnoughDiamonds | ExchangeDone

text \<open>
  The hooks of lines 54-62, the storage, and the alerts shown so far (oldest first).
\<close>

record world =
  bananas :: number
  upgrades :: "string list"
  diamonds :: number
  slotCount :: number
  showSaveMenu :: bool
  showShop :: bool
  showDiamondShop :: bool
  diamondPurchaseAmount :: number
  isMuted :: bool
  storage :: localStorage
  alerts :: "alert list"

definition alert :: "alert \<Rightarrow> world \<Rightarrow> world" where
  "alert a w = w\<lparr>alerts := alerts w @ [a]\<rparr>"

text \<open>The values of \<open>useState\<close> on the first render, over a given storage.\<close>

definition initial :: "localStorage \<Rightarrow> world" where
  "initial st =
     \<lparr>bananas = 0, upgrades = [], diamonds = 0, slotCount = 2,
      showSaveMenu = False, showShop = False, showDiamondShop = False,
      diamondPurchaseAmount = 1, isMuted = False, storage = st, alerts = []\<rparr>"

definition emptyStorage :: localStorage where
  "emptyStorage =
     \<lparr>banana_clicker_meta = None, banana_clicker_count = None,
      banana_clicker_upgrades = None, banana_clicker_slot = (\<lambda>n. None)\<rparr>"

subsection \<open>Derived gain (lines 64-70)\<close>

definition hasDouble :: "string list \<Rightarrow> bool" where
  "hasDouble ups = (''double_banana'' \<in> set ups)"

definition hasSoup :: "string list \<Rightarrow> bool" where
  "hasSoup ups = (''soup'' \<in> set ups)"

definition has1488 :: "string list \<Rightarrow> bool" where
  "has1488 ups = (''plus_1488'' \<in> set ups)"

definition multiplier :: "string list \<Rightarrow> number" where
  "multiplier ups = (if hasDouble ups then 2 else 1)"

definition bonus :: "string list \<Rightarrow> number" where
  "bonus ups = (if hasSoup ups then 5 else 0) + (if has1488 ups then 1488 else 0)"

definition perClick :: "string list \<Rightarrow> number" where
  "perClick ups = (1 + bonus ups) * multiplier ups"

subsection \<open>Reading the storage on mount, writing the meta record (lines 73-91)\<close>

text \<open>The operator \<open>||\<close> on a possibly undefined number: \<open>undefined\<close> and \<open>0\<close> are falsy.\<close>

definition or_default :: "number option \<Rightarrow> number \<Rightarrow> number" where
  "or_default v d = (case v of None \<Rightarrow> d | Some x \<Rightarrow> if x = 0 then d else x)"

text \<open>
  The first effect (lines 73-86). \<open>parseFloat\<close> is the platform's function, a
  parameter here. \<open>JSON.parse\<close> is not guarded by \<open>try\<close>, so its exception leaves the
  effect.
\<close>

definition loadOnMount :: "(string \<Rightarrow> number) \<Rightarrow> world \<Rightarrow> exn + world" where
  "loadOnMount parseFloat w =
     (let meta = banana_clicker_meta (storage w) in
      case (case meta of
              None \<Rightarrow> Inr w
            | Some raw \<Rightarrow>
                if raw = EmptyText then Inr w
                else (case JSON_parse raw of
                        Inl e \<Rightarrow> Inl e
                      | Inr m \<Rightarrow>
                          Inr (w\<lparr>diamonds := or_default (meta_diamonds m) 0,
                                 slotCount := or_default (meta_slotCount m) 2\<rparr>))) of
        Inl e \<Rightarrow> Inl e
      | Inr w1 \<Rightarrow>
          (let savedBananas = banana_clicker_count (storage w);
               savedUpgrades = banana_clicker_upgrades (storage w);
               w2 = (case savedBananas of
                       None \<Rightarrow> w1
                     | Some t \<Rightarrow> if t = [] then w1 else w1\<lparr>bananas := parseFloat t\<rparr>)
           in case savedUpgrades of
                None \<Rightarrow> Inr w2
              | Some raw \<Rightarrow>
                  if raw = EmptyText then Inr w2
                  else (case JSON_parse raw of
                          Inl e \<Rightarrow> Inl e
                        | Inr u \<Rightarrow> Inr (w2\<lparr>upgrades := u\<rparr>))))"

text \<open>The second effect (lines 89-91): the meta record is rewritten from the state.\<close>

definition saveMeta :: "world \<Rightarrow> world" where
  "saveMeta w =
     w\<lparr>storage := (storage w)\<lparr>banana_clicker_meta :=
          Some (JSON_stringify \<lparr>meta_diamonds = Some (diamonds w),
                                meta_slotCount = Some (slotCount w)\<rparr>)\<rparr>\<rparr>"

text \<open>
  Its dependency list is \<open>[diamonds, slotCount]\<close>: after a render it runs when one of
  the two differs from the previous render.
\<close>

definition metaEffect :: "world \<Rightarrow> world \<Rightarrow> world" where
  "metaEffect prev w =
     (if diamonds w \<noteq> diamonds prev \<or> slotCount w \<noteq> slotCount prev
      then saveMeta w else w)"

text \<open>
  Mounting the component over a storage: the first render, the load effect, and the
  meta record written from the loaded values.
\<close>

definition startup :: "(string \<Rightarrow> number) \<Rightarrow> localStorage \<Rightarrow> exn + world" where
  "startup parseFloat st =
     (case loadOnMount parseFloat (initial st) of
        Inl e \<Rightarrow> Inl e
      | Inr w \<Rightarrow> Inr (saveMeta w))"

subsection \<open>Save slots (lines 93-113, and the slot list of the save menu, lines 508-511)\<close>

text \<open>\<open>now\<close> is the value of \<open>new Date().toLocaleString()\<close> at the call.\<close>

definition handleSaveToSlot :: "string \<Rightarrow> nat \<Rightarrow> world \<Rightarrow> world" where
  "handleSaveToSlot now slotId w =
     (let saveData = \<lparr>save_bananas = bananas w, save_upgrades = upgrades w, lastSaved = now\<rparr>
      in alert (SavedToSlot slotId)
           (w\<lparr>storage := (storage w)\<lparr>banana_clicker_slot :=
                 (banana_clicker_slot (storage w))(slotId \<mapsto> JSON_stringify saveData)\<rparr>\<rparr>))"

definition handleLoadFromSlot :: "nat \<Rightarrow> world \<Rightarrow> exn + world" where
  "handleLoadFromSlot slotId w =
     (let rawData = banana_clicker_slot (storage w) slotId in
      case rawData of
        None \<Rightarrow> Inr (alert SlotIsEmpty w)
      | Some raw \<Rightarrow>
          if raw = EmptyText then Inr (alert SlotIsEmpty w)
          else (case JSON_parse raw of
                  Inl e \<Rightarrow> Inl e
                | Inr data \<Rightarrow>
                    Inr (alert (LoadedFromSlot slotId)
                           (w\<lparr>bananas := save_bananas data, upgrades := save_upgrades data\<rparr>))))"

text \<open>
  What the save menu computes for one slot while rendering:
  \<open>rawData ? JSON.parse(rawData) : null\<close>.
\<close>

definition saveMenuSlot :: "nat \<Rightarrow> world \<Rightarrow> exn + SaveData option" where
  "saveMenuSlot slotId w =
     (case banana_clicker_slot (storage w) slotId of
        None \<Rightarrow> Inr None
      | Some raw \<Rightarrow>
          if raw = EmptyText then Inr None
          else (case JSON_parse raw of Inl e \<Rightarrow> Inl e | Inr data \<Rightarrow> Inr (Some data)))"

subsection \<open>Diamonds, clicks and upgrades (lines 115-161)\<close>

definition buySlot :: "world \<Rightarrow> world" where
  "buySlot w =
     (if diamonds w \<ge> 1
      then w\<lparr>diamonds := diamonds w - 1, slotCount := slotCount w + 1\<rparr>
      else alert NotEnoughDiamonds w)"

definition exchangeDiamonds :: "world \<Rightarrow> world" where
  "exchangeDiamonds w =
     (if diamonds w \<ge> 1
      then alert ExchangeDone
             (w\<lparr>diamonds := diamonds w - 1, bananas := binary64 (bananas w + 200000000)\<rparr>)
      else alert NotEnoughDiamonds w)"

text \<open>The confetti of lines 137-151 is display only.\<close>

definition handleBananaClick :: "world \<Rightarrow> world" where
  "handleBananaClick w = w\<lparr>bananas := binary64 (bananas w + perClick (upgrades w))\<rparr>"

definition buyUpgrade :: "Upgrade \<Rightarrow> world \<Rightarrow> world" where
  "buyUpgrade upgrade w =
     (let isBought = (upgrade_id upgrade \<in> set (upgrades w)) in
      if bananas w \<ge> cost upgrade \<and> \<not> isBought
      then w\<lparr>bananas := bananas w - cost upgrade,
             upgrades := upgrades w @ [upgrade_id upgrade]\<rparr>
      else w)"

subsection \<open>What the shop and the diamond shop render\<close>


text \<open>
  The diamond shop (lines 410-474), when shown: the amount on display and the fixed
  notice under the buy button. The button itself has no \<open>onClick\<close>.
\<close>

definition diamondShop :: "world \<Rightarrow> (number \<times> string) option" where
  "diamondShop w =
     (if showDiamondShop w then Some (diamondPurchaseAmount w, ''CANNOT BUY YET'') else None)"

subsection \<open>Events\<close>

text \<open>
  The user's intents, one constructor per \<open>onClick\<close> or \<open>onChange\<close> of the component
  that touches the state modelled here. \<open>AttemptBuyDiamonds\<close> is a click on the buy
  button of the diamond shop.
\<close>

datatype event =
    Click
  | BuyUpgrade Upgrade
  | BuySlot
  | ExchangeDiamonds
  | SaveToSlot nat string
  | LoadFromSlot nat
  | OpenShop
  | CloseShop
  | OpenSaveMenu
  | CloseSaveMenu
  | OpenDiamondShop
  | CloseDiamondShop
  | SetDiamondPurchaseAmount number
  | AttemptBuyDiamonds

fun handle :: "event \<Rightarrow> world \<Rightarrow> exn + world" where
  "handle Click w = Inr (handleBananaClick w)"
| "handle (BuyUpgrade upgrade) w = Inr (buyUpgrade upgrade w)"
| "handle BuySlot w = Inr (buySlot w)"
| "handle ExchangeDiamonds w = Inr (exchangeDiamonds w)"
| "handle (SaveToSlot slotId now) w = Inr (handleSaveToSlot now slotId w)"
| "handle (LoadFromSlot slotId) w = handleLoadFromSlot slotId w"
| "handle OpenShop w = Inr (w\<lparr>showShop := True\<rparr>)"
| "handle CloseShop w = Inr (w\<lparr>showShop := False\<rparr>)"
| "handle OpenSaveMenu w = Inr (w\<lparr>showSaveMenu := True\<rparr>)"
| "handle CloseSaveMenu w = Inr (w\<lparr>showSaveMenu := False\<rparr>)"
| "handle OpenDiamondShop w = Inr (w\<lparr>showDiamondShop := True\<rparr>)"
| "handle CloseDiamondShop w = Inr (w\<lparr>showDiamondShop := False\<rparr>)"
| "handle (SetDiamondPurchaseAmount n) w = Inr (w\<lparr>diamondPurchaseAmount := n\<rparr>)"
| "handle AttemptBuyDiamonds w = Inr w"

text \<open>
  One event: the handler, then the render and the meta effect. A handler that throws
  has set no state before the exception, so the world stays as it was.
\<close>

definition dispatch :: "world \<Rightarrow> event \<Rightarrow> world" where
  "dispatch w e = (case handle e w of Inl x \<Rightarrow> w | Inr w' \<Rightarrow> metaEffect w w')"

definition run :: "world \<Rightarrow> event list \<Rightarrow> world" where
  "run w es = foldl dispatch w es"

text \<open>The interactions with the diamond shop.\<close>

fun diamondShopEvent :: "event \<Rightarrow> bool" where
  "diamondShopEvent OpenDiamondShop = True"
| "diamondShopEvent CloseDiamondShop = True"
| "diamondShopEvent (SetDiamondPurchaseAmount n) = True"
| "diamondShopEvent AttemptBuyDiamonds = True"
| "diamondShopEvent e = False"

subsection \<open>Predicates and inputs used in the properties\<close>

text \<open>
  Every save slot that parses holds a balance that is not negative: what
  \<open>handleSaveToSlot\<close> writes from a state whose balance is not negative.
\<close>

definition slotsNonNegative :: "localStorage \<Rightarrow> bool" where
  "slotsNonNegative st =
     (\<forall>n d. banana_clicker_slot st n = Some (Stringified d) \<longrightarrow> 0 \<le> save_bananas d)"

text \<open>
  A storage whose save slots, meta record and count record hold no negative balance:
  what earlier sessions of the component leave behind.
\<close>

definition storedNonNegative :: "(string \<Rightarrow> number) \<Rightarrow> localStorage \<Rightarrow> bool" where
  "storedNonNegative parseFloat st =
     (slotsNonNegative st
      \<and> (\<forall>m d. banana_clicker_meta st = Some (Stringified m) \<and> meta_diamonds m = Some d \<longrightarrow> 0 \<le> d)
      \<and> (\<forall>t. banana_clicker_count st = Some t \<longrightarrow> 0 \<le> parseFloat t))"

text \<open>The first entry of \<open>INITIAL_UPGRADES\<close>.\<close>

definition double_banana :: Upgrade where
  "double_banana = \<lparr>upgrade_id = ''double_banana'', cost = 10, upgrade_type = Multiplier\<rparr>"

text \<open>The component on its first render over an empty storage.\<close>

definition fresh :: world where
  "fresh = initial emptyStorage"

text \<open>
  A storage as an earlier session with two diamonds and three slots left it, and the
  component mounted over it.
\<close>

definition keptStorage :: localStorage where
  "keptStorage = emptyStorage\<lparr>banana_clicker_meta :=
      Some (Stringified \<lparr>meta_diamonds = Some 2, meta_slotCount = Some 3\<rparr>)\<rparr>"

definition kept :: world where
  "kept = (initial keptStorage)\<lparr>diamonds := 2, slotCount := 3\<rparr>"



text \<open>Storages with a record that \<open>JSON.parse\<close> rejects: slot 1, and the meta record.\<close>

definition brokenStorage :: localStorage where
  "brokenStorage = emptyStorage\<lparr>banana_clicker_slot := (\<lambda>n. None)(1 \<mapsto> Unparseable)\<rparr>"

definition brokenMeta :: localStorage where
  "brokenMeta = emptyStorage\<lparr>banana_clicker_meta := Some Unparseable\<rparr>"

section \<open>Auxiliary facts\<close>

lemma exn_SyntaxError: "(x :: exn) = SyntaxError"
  by (cases x) simp

lemma JSON_parse_Inr: "JSON_parse t = Inr v \<longleftrightarrow> t = Stringified v"
  by (cases t) auto

subsection \<open>Rounding to binary64\<close>


lemma roundTiesToEven_nonneg: "0 \<le> y \<Longrightarrow> 0 \<le> roundTiesToEven y"
  by (auto simp add: roundTiesToEven_def Let_def)

lemma roundTiesToEven_error: "\<bar>of_int (roundTiesToEven y) - y\<bar> \<le> 1 / 2"
  by (auto simp add: roundTiesToEven_def Let_def)

lemma pow2_pos: "0 < pow2 e"
  by (simp add: pow2_def)

lemma pow2_neg: "0 \<le> b \<Longrightarrow> pow2 (- b) = 1 / 2 ^ nat b"
  by (cases "b = 0") (simp_all add: pow2_def)

text \<open>\<open>ilog2\<close> is the binary exponent.\<close>

lemma ilog2_bounds:
  assumes "0 < x"
  shows "pow2 (ilog2 x) \<le> x \<and> x < pow2 (ilog2 x + 1)"
proof (cases "1 \<le> x")
  case True
  define n where "n = \<lfloor>x\<rfloor>"
  have n: "0 < n" using True by (simp add: n_def)
  have b1: "1 \<le> bitlen n" using n bitlen_eq_zero_iff [of n] bitlen_nonneg [of n] by linarith
  have il: "ilog2 x = bitlen n - 1" using True by (simp add: ilog2_def n_def)
  from bitlen_bounds [OF n] have lo: "2 ^ nat (bitlen n - 1) \<le> n" and hi: "n < 2 ^ nat (bitlen n)"
    by simp_all
  have "real_of_int (2 ^ nat (bitlen n - 1)) \<le> of_int n" using lo by (simp only: of_int_le_iff)
  also have "\<dots> \<le> x" by (simp add: n_def)
  finally have A: "pow2 (ilog2 x) \<le> x" using b1 by (simp add: il pow2_def)
  have "n + 1 \<le> 2 ^ nat (bitlen n)" using hi by simp
  then have "real_of_int (n + 1) \<le> of_int (2 ^ nat (bitlen n))" by (simp only: of_int_le_iff)
  moreover have "x < of_int (n + 1)" by (simp add: n_def)
  ultimately have "x < 2 ^ nat (bitlen n)" by simp
  then have B: "x < pow2 (ilog2 x + 1)" using b1 by (simp add: il pow2_def)
  from A B show ?thesis ..
next
  case False
  define y where "y = 1 / x"
  have y1: "1 < y" using False assms by (simp add: y_def)
  define m where "m = \<lceil>y\<rceil> - 1"
  have m: "0 < m" using y1 by (simp add: m_def)
  have b1: "1 \<le> bitlen m" using m bitlen_eq_zero_iff [of m] bitlen_nonneg [of m] by linarith
  have il: "ilog2 x = - bitlen m" using False by (simp add: ilog2_def m_def y_def)
  from bitlen_bounds [OF m] have lo: "2 ^ nat (bitlen m - 1) \<le> m" and hi: "m < 2 ^ nat (bitlen m)"
    by simp_all
  have "y \<le> of_int (m + 1)" by (simp add: m_def)
  also have "m + 1 \<le> 2 ^ nat (bitlen m)" using hi by simp
  then have "real_of_int (m + 1) \<le> of_int (2 ^ nat (bitlen m))" by (simp only: of_int_le_iff)
  finally have "y \<le> 2 ^ nat (bitlen m)" by simp
  then have "1 / 2 ^ nat (bitlen m) \<le> x"
    using assms by (simp add: y_def field_simps)
  then have A: "pow2 (ilog2 x) \<le> x" using b1 by (simp add: il pow2_neg)
  have "(2::real) ^ nat (bitlen m - 1) \<le> of_int m" using lo by simp
  moreover have "of_int m < y" by (simp add: m_def) linarith
  ultimately have "2 ^ nat (bitlen m - 1) < y" by linarith
  then have "x < 1 / 2 ^ nat (bitlen m - 1)"
    using assms by (simp add: y_def field_simps)
  moreover have "pow2 (ilog2 x + 1) = 1 / 2 ^ nat (bitlen m - 1)"
    using b1 pow2_neg [of "bitlen m - 1"] by (simp add: il)
  ultimately have B: "x < pow2 (ilog2 x + 1)" by simp
  from A B show ?thesis ..
qed

text \<open>\<open>binary64\<close> is off by at most half a unit in the last place.\<close>

lemma binary64_error:
  "\<bar>binary64 x - x\<bar> \<le> pow2 (max (ilog2 \<bar>x\<bar> - 52) (- 1074)) / 2"
proof (cases "x = 0")
  case True
  then show ?thesis using pow2_pos [of "max (ilog2 \<bar>x\<bar> - 52) (- 1074)"] by (simp add: binary64_def)
next
  case False
  define p where "p = pow2 (max (ilog2 \<bar>x\<bar> - 52) (- 1074))"
  define m where "m = real_of_int (roundTiesToEven (\<bar>x\<bar> / p))"
  have p: "0 < p" by (simp add: p_def pow2_pos)
  have b: "binary64 x = sgn x * m * p" using False by (simp add: binary64_def Let_def p_def m_def)
  have "x = sgn x * (\<bar>x\<bar> / p) * p" using p by (simp add: sgn_if)
  then have "binary64 x - x = sgn x * (m - \<bar>x\<bar> / p) * p"
    unfolding b by (simp add: algebra_simps)
  then have "\<bar>binary64 x - x\<bar> = \<bar>m - \<bar>x\<bar> / p\<bar> * p"
    using False p by (simp add: abs_mult abs_sgn_eq)
  also have "\<dots> \<le> (1 / 2) * p"
    using roundTiesToEven_error [of "\<bar>x\<bar> / p"] p unfolding m_def
    by (intro mult_right_mono) simp_all
  finally show ?thesis by (simp add: p_def)
qed

lemma binary64_nonneg: "0 \<le> x \<Longrightarrow> 0 \<le> binary64 x"
proof (cases "x = 0")
  case True
  then show ?thesis by (simp add: binary64_def)
next
  case False
  assume "0 \<le> x"
  define e where "e = max (ilog2 \<bar>x\<bar> - 52) (- 1074)"
  have "0 \<le> \<bar>x\<bar> / pow2 e" using pow2_pos [of e] by simp
  then have "0 \<le> roundTiesToEven (\<bar>x\<bar> / pow2 e)" by (rule roundTiesToEven_nonneg)
  then have "0 \<le> of_int (roundTiesToEven (\<bar>x\<bar> / pow2 e)) * pow2 e"
    using pow2_pos [of e] by simp
  moreover have "binary64 x = of_int (roundTiesToEven (\<bar>x\<bar> / pow2 e)) * pow2 e"
    using False \<open>0 \<le> x\<close> by (simp add: binary64_def e_def Let_def)
  ultimately show ?thesis by simp
qed






subsection \<open>Elementary facts about the handlers\<close>

lemma perClick_pos: "1 \<le> perClick ups"
  by (simp add: perClick_def bonus_def multiplier_def)

lemma slots_saveMeta: "slotsNonNegative (storage (saveMeta w)) = slotsNonNegative (storage w)"
  by (simp add: saveMeta_def slotsNonNegative_def)

subsection \<open>The balances stay non-negative along every event\<close>

lemma metaEffect_inv:
  "0 \<le> bananas v \<and> 0 \<le> diamonds v \<and> slotsNonNegative (storage v) \<Longrightarrow>
   0 \<le> bananas (metaEffect w v) \<and> 0 \<le> diamonds (metaEffect w v)
     \<and> slotsNonNegative (storage (metaEffect w v))"
  by (simp add: metaEffect_def slots_saveMeta) (simp add: saveMeta_def)

lemma handle_inv:
  assumes "0 \<le> bananas w" "0 \<le> diamonds w" "slotsNonNegative (storage w)"
    and "handle e w = Inr v"
  shows "0 \<le> bananas v \<and> 0 \<le> diamonds v \<and> slotsNonNegative (storage v)"
proof (cases e)
  case Click
  have "0 \<le> bananas w + perClick (upgrades w)"
    using perClick_pos [of "upgrades w"] assms(1) by simp
  then have "0 \<le> binary64 (bananas w + perClick (upgrades w))" by (rule binary64_nonneg)
  with assms Click show ?thesis by (auto simp add: handleBananaClick_def)
next
  case (BuyUpgrade u)
  with assms show ?thesis by (auto simp add: buyUpgrade_def Let_def split: if_splits)
next
  case BuySlot
  with assms show ?thesis by (auto simp add: buySlot_def alert_def split: if_splits)
next
  case ExchangeDiamonds
  have "0 \<le> binary64 (bananas w + 200000000)"
    using assms(1) by (intro binary64_nonneg) simp
  with assms ExchangeDiamonds show ?thesis
    by (auto simp add: exchangeDiamonds_def alert_def split: if_splits)
next
  case (SaveToSlot n now)
  with assms show ?thesis
    by (auto simp add: handleSaveToSlot_def alert_def JSON_stringify_def slotsNonNegative_def
          split: if_splits)
next
  case (LoadFromSlot n)
  with assms show ?thesis
    by (auto simp add: handleLoadFromSlot_def alert_def slotsNonNegative_def JSON_parse_Inr
          split: option.splits if_splits sum.splits)
qed (use assms in auto)

lemma dispatch_inv:
  assumes "0 \<le> bananas w \<and> 0 \<le> diamonds w \<and> slotsNonNegative (storage w)"
  shows "0 \<le> bananas (dispatch w e) \<and> 0 \<le> diamonds (dispatch w e)
           \<and> slotsNonNegative (storage (dispatch w e))"
proof (cases "handle e w")
  case (Inl x)
  with assms show ?thesis by (simp add: dispatch_def)
next
  case (Inr v)
  with assms have "0 \<le> bananas v \<and> 0 \<le> diamonds v \<and> slotsNonNegative (storage v)"
    using handle_inv [of w e v] by simp
  then show ?thesis using Inr metaEffect_inv [of v w] by (simp add: dispatch_def)
qed

lemma run_inv:
  "0 \<le> bananas w \<and> 0 \<le> diamonds w \<and> slotsNonNegative (storage w) \<Longrightarrow>
   0 \<le> bananas (run w es) \<and> 0 \<le> diamonds (run w es) \<and> slotsNonNegative (storage (run w es))"
proof (induction es arbitrary: w)
  case Nil
  then show ?case by (simp add: run_def)
next
  case (Cons e es)
  from Cons.prems have "0 \<le> bananas (dispatch w e) \<and> 0 \<le> diamonds (dispatch w e)
           \<and> slotsNonNegative (storage (dispatch w e))" by (rule dispatch_inv)
  then have "0 \<le> bananas (run (dispatch w e) es) \<and> 0 \<le> diamonds (run (dispatch w e) es)
     \<and> slotsNonNegative (storage (run (dispatch w e) es))" by (rule Cons.IH)
  then show ?case by (simp add: run_def)
qed

lemma or_default_nonneg:
  "0 \<le> k \<Longrightarrow> (\<And>d. v = Some d \<Longrightarrow> 0 \<le> d) \<Longrightarrow> 0 \<le> or_default v k"
  by (cases v) (simp_all add: or_default_def)

lemma loadOnMount_inv:
  assumes "storedNonNegative parseFloat st" and "loadOnMount parseFloat (initial st) = Inr w"
  shows "0 \<le> bananas w \<and> 0 \<le> diamonds w \<and> storage w = st"
proof -
  have count: "\<And>t. banana_clicker_count st = Some t \<Longrightarrow> 0 \<le> parseFloat t"
    using assms(1) by (simp add: storedNonNegative_def)
  have meta: "\<And>m. banana_clicker_meta st = Some (Stringified m) \<Longrightarrow>
                0 \<le> or_default (meta_diamonds m) 0"
    using assms(1) by (intro or_default_nonneg) (auto simp add: storedNonNegative_def)
  show ?thesis
    using assms(2) count meta
    by (auto simp add: loadOnMount_def initial_def Let_def JSON_parse_Inr
          split: option.splits sum.splits if_splits)
qed

lemma startup_inv:
  assumes "storedNonNegative parseFloat st" and "startup parseFloat st = Inr w"
  shows "0 \<le> bananas w \<and> 0 \<le> diamonds w \<and> slotsNonNegative (storage w)"
proof -
  from assms(2) obtain v where v: "loadOnMount parseFloat (initial st) = Inr v" and w: "w = saveMeta v"
    by (auto simp add: startup_def split: sum.splits)
  from loadOnMount_inv [OF assms(1) v] have "0 \<le> bananas v \<and> 0 \<le> diamonds v \<and> storage v = st" .
  moreover have "slotsNonNegative st" using assms(1) by (simp add: storedNonNegative_def)
  ultimately show ?thesis unfolding w by (simp add: slots_saveMeta) (simp add: saveMeta_def)
qed

subsection \<open>The diamond shop touches nothing\<close>

lemma diamondShopEvent_dispatch:
  assumes "diamondShopEvent e"
  shows "bananas (dispatch w e) = bananas w \<and> upgrades (dispatch w e) = upgrades w
         \<and> diamonds (dispatch w e) = diamonds w \<and> slotCount (dispatch w e) = slotCount w
         \<and> storage (dispatch w e) = storage w \<and> alerts (dispatch w e) = alerts w"
  using assms by (cases e) (simp_all add: dispatch_def metaEffect_def)

lemma diamondShopEvent_run:
  "list_all diamondShopEvent es \<Longrightarrow>
     bananas (run w es) = bananas w \<and> upgrades (run w es) = upgrades w
     \<and> diamonds (run w es) = diamonds w \<and> slotCount (run w es) = slotCount w
     \<and> storage (run w es) = storage w \<and> alerts (run w es) = alerts w"
proof (induction es arbitrary: w)
  case Nil
  then show ?case by (simp add: run_def)
next
  case (Cons e es)
  then have e: "diamondShopEvent e" and es: "list_all diamondShopEvent es" by simp_all
  have step: "run w (e # es) = run (dispatch w e) es" by (simp add: run_def)
  show ?case
    unfolding step using Cons.IH [OF es, of "dispatch w e"] diamondShopEvent_dispatch [OF e, of w]
    by simp
qed

section \<open>Properties\<close>

subsection \<open>C1: the gain per click\<close>

text \<open>
  C1. For every list of owned upgrade ids the gain per click is
  \<open>(1 + additiveBonus) * multiplierFactor\<close>, where the factor is 2 when
  \<open>double_banana\<close> is owned and 1 otherwise, and the bonus is 5 for \<open>soup\<close> plus 1488
  for \<open>plus_1488\<close>; in particular the five values of the specification.
\<close>

theorem perClick_formula:
  "perClick ups =
     (1 + ((if ''soup'' \<in> set ups then 5 else 0) + (if ''plus_1488'' \<in> set ups then 1488 else 0)))
       * (if ''double_banana'' \<in> set ups then 2 else 1)
   \<and> perClick [] = 1
   \<and> perClick [''double_banana''] = 2
   \<and> perClick [''soup''] = 6
   \<and> perClick [''double_banana'', ''soup''] = 12
   \<and> perClick [''double_banana'', ''soup'', ''plus_1488''] = 2988"
  by (simp add: perClick_def bonus_def multiplier_def hasDouble_def hasSoup_def has1488_def)

text \<open>Two more lists: order and repetition of the ids do not matter.\<close>

theorem perClick_formula_witness:
  "perClick [''plus_1488''] = 1489 \<and> perClick [''soup'', ''double_banana'', ''soup''] = 12"
  using perClick_formula [of "[''plus_1488'']"]
    perClick_formula [of "[''soup'', ''double_banana'', ''soup'']"]
  by simp

subsection \<open>C2: buying an upgrade\<close>




subsection \<open>C3: saving to a slot and loading it back\<close>

text \<open>
  C3. \<open>handleSaveToSlot\<close> writes a record of the balance, the owned ids and the time
  stamp, and nothing else. In every state whose storage still holds that record in
  that slot, \<open>handleLoadFromSlot\<close> succeeds and sets the balance and the owned ids to
  those at save time, leaving diamonds and slot count as they are at load time; loading
  right after saving gives back the state that was saved.
\<close>

theorem save_load_roundtrip:
  "banana_clicker_slot (storage (handleSaveToSlot now n w)) n =
     Some (Stringified \<lparr>save_bananas = bananas w, save_upgrades = upgrades w, lastSaved = now\<rparr>)
   \<and> (banana_clicker_slot (storage v) n = banana_clicker_slot (storage (handleSaveToSlot now n w)) n \<longrightarrow>
        handleLoadFromSlot n v =
          Inr (alert (LoadedFromSlot n) (v\<lparr>bananas := bananas w, upgrades := upgrades w\<rparr>)))
   \<and> handleLoadFromSlot n (handleSaveToSlot now n w) =
        Inr (alert (LoadedFromSlot n) (handleSaveToSlot now n w))"
  by (simp add: handleSaveToSlot_def handleLoadFromSlot_def alert_def JSON_stringify_def)

text \<open>Twelve bananas saved, a slot bought and a click made, then loaded: twelve again.\<close>

theorem save_load_roundtrip_witness:
  "handleLoadFromSlot 1 (handleBananaClick (buySlot (handleSaveToSlot ''noon'' 1 (kept\<lparr>bananas := 12\<rparr>))))
     = Inr (alert (LoadedFromSlot 1)
         ((handleBananaClick (buySlot (handleSaveToSlot ''noon'' 1 (kept\<lparr>bananas := 12\<rparr>))))
            \<lparr>bananas := 12, upgrades := []\<rparr>))"
  using save_load_roundtrip [of "''noon''" 1 "kept\<lparr>bananas := 12\<rparr>"
      "handleBananaClick (buySlot (handleSaveToSlot ''noon'' 1 (kept\<lparr>bananas := 12\<rparr>)))"]
  by (simp add: handleBananaClick_def buySlot_def handleSaveToSlot_def alert_def kept_def initial_def
        JSON_stringify_def)

subsection \<open>C4: the balances are never negative\<close>

text \<open>
  C4. From a state whose two balances are not negative and whose stored slots hold no
  negative balance, every sequence of events (clicks, upgrade and slot purchases,
  exchanges, saves, loads, and the menu events) leads to a state whose two balances are
  not negative; so does every sequence after mounting over a storage that holds no
  negative balance. A purchase or an exchange that the balance does not cover changes
  no balance.
\<close>

theorem balances_never_negative:
  "(0 \<le> bananas w \<and> 0 \<le> diamonds w \<and> slotsNonNegative (storage w) \<longrightarrow>
      0 \<le> bananas (run w es) \<and> 0 \<le> diamonds (run w es)
      \<and> slotsNonNegative (storage (run w es)))
   \<and> (storedNonNegative parseFloat st \<and> startup parseFloat st = Inr w0 \<longrightarrow>
        0 \<le> bananas (run w0 es) \<and> 0 \<le> diamonds (run w0 es))
   \<and> (bananas w < cost u \<longrightarrow> buyUpgrade u w = w)
   \<and> (diamonds w < 1 \<longrightarrow>
        buySlot w = alert NotEnoughDiamonds w \<and> exchangeDiamonds w = alert NotEnoughDiamonds w)"
proof -
  have general: "0 \<le> bananas v \<and> 0 \<le> diamonds v \<and> slotsNonNegative (storage v) \<longrightarrow>
      0 \<le> bananas (run v es) \<and> 0 \<le> diamonds (run v es)
      \<and> slotsNonNegative (storage (run v es))" for v
    using run_inv [of v es] by simp
  have mounted: "storedNonNegative parseFloat st \<and> startup parseFloat st = Inr w0 \<longrightarrow>
      0 \<le> bananas (run w0 es) \<and> 0 \<le> diamonds (run w0 es)"
    using startup_inv [of parseFloat st w0] general [of w0] by simp
  have declined: "bananas w < cost u \<longrightarrow> buyUpgrade u w = w"
    by (simp add: buyUpgrade_def)
  have short: "diamonds w < 1 \<longrightarrow>
      buySlot w = alert NotEnoughDiamonds w \<and> exchangeDiamonds w = alert NotEnoughDiamonds w"
    by (simp add: buySlot_def exchangeDiamonds_def)
  from general [of w] mounted declined short show ?thesis by simp
qed

text \<open>
  Mounted over the storage of an earlier session with two diamonds: a click, an
  exchange, a purchase, a save, a slot bought, a slot and an exchange declined, a
  click and two loads.
\<close>

theorem balances_never_negative_witness:
  "startup (\<lambda>t. 0) keptStorage = Inr kept
   \<and> 0 \<le> bananas (run kept [Click, ExchangeDiamonds, BuyUpgrade double_banana, SaveToSlot 1 ''noon'',
        BuySlot, BuySlot, ExchangeDiamonds, Click, LoadFromSlot 1, LoadFromSlot 2])
   \<and> 0 \<le> diamonds (run kept [Click, ExchangeDiamonds, BuyUpgrade double_banana, SaveToSlot 1 ''noon'',
        BuySlot, BuySlot, ExchangeDiamonds, Click, LoadFromSlot 1, LoadFromSlot 2])
   \<and> buyUpgrade double_banana kept = kept
   \<and> buySlot fresh = alert NotEnoughDiamonds fresh
   \<and> exchangeDiamonds fresh = alert NotEnoughDiamonds fresh"
  using balances_never_negative [of kept "[Click, ExchangeDiamonds, BuyUpgrade double_banana,
        SaveToSlot 1 ''noon'', BuySlot, BuySlot, ExchangeDiamonds, Click, LoadFromSlot 1, LoadFromSlot 2]"
        "\<lambda>t. 0" keptStorage kept double_banana]
    balances_never_negative [of fresh "[]" "\<lambda>t. 0" keptStorage kept double_banana]
  by (simp add: kept_def fresh_def initial_def keptStorage_def emptyStorage_def slotsNonNegative_def
        storedNonNegative_def startup_def loadOnMount_def saveMeta_def or_default_def
        JSON_stringify_def double_banana_def alert_def)

subsection \<open>C5: exchanging a diamond for bananas\<close>




subsection \<open>C6: records that do not parse\<close>

text \<open>
  C6, as the code has it. A stored record that is the empty string is read as absent:
  a slot load reports the empty slot and mounting keeps the defaults. A stored record
  that is a non-empty string rejected by \<open>JSON.parse\<close> makes every path that parses it
  throw \<open>SyntaxError\<close>, which nothing catches: the slot load (which then changes no
  state), the slot list of the save menu, and mounting, for the meta record and for the
  upgrades record alike. The count record is read with \<open>parseFloat\<close> and throws
  nothing: when the meta and upgrades records are absent or empty, mounting succeeds
  whatever the count record holds.
\<close>

theorem unparseable_record_raises:
  "(banana_clicker_slot (storage w) n = Some Unparseable \<longrightarrow>
      handleLoadFromSlot n w = Inl SyntaxError \<and> saveMenuSlot n w = Inl SyntaxError
      \<and> dispatch w (LoadFromSlot n) = w)
   \<and> (banana_clicker_slot (storage w) n = Some EmptyText \<longrightarrow>
        handleLoadFromSlot n w = Inr (alert SlotIsEmpty w) \<and> saveMenuSlot n w = Inr None)
   \<and> (banana_clicker_meta st = Some Unparseable \<longrightarrow> startup parseFloat st = Inl SyntaxError)
   \<and> (banana_clicker_upgrades st = Some Unparseable \<longrightarrow> startup parseFloat st = Inl SyntaxError)
   \<and> ((banana_clicker_meta st = None \<or> banana_clicker_meta st = Some EmptyText)
        \<and> (banana_clicker_upgrades st = None \<or> banana_clicker_upgrades st = Some EmptyText) \<longrightarrow>
        startup parseFloat st =
          Inr (saveMeta ((initial st)\<lparr>bananas :=
                 (case banana_clicker_count st of
                    None \<Rightarrow> 0
                  | Some t \<Rightarrow> if t = [] then 0 else parseFloat t)\<rparr>)))"
  by (auto simp add: handleLoadFromSlot_def saveMenuSlot_def dispatch_def startup_def
        loadOnMount_def initial_def Let_def exn_SyntaxError
        split: option.splits sum.splits json_text.splits)

theorem unparseable_record_raises_witness:
  "handleLoadFromSlot 1 (initial brokenStorage) = Inl SyntaxError
   \<and> saveMenuSlot 1 (initial brokenStorage) = Inl SyntaxError
   \<and> dispatch (initial brokenStorage) (LoadFromSlot 1) = initial brokenStorage
   \<and> startup (\<lambda>t. 7) brokenMeta = Inl SyntaxError
   \<and> startup (\<lambda>t. 7) (emptyStorage\<lparr>banana_clicker_upgrades := Some Unparseable\<rparr>) = Inl SyntaxError
   \<and> handleLoadFromSlot 1 (initial (emptyStorage\<lparr>banana_clicker_slot := (\<lambda>n. None)(1 \<mapsto> EmptyText)\<rparr>))
       = Inr (alert SlotIsEmpty (initial (emptyStorage\<lparr>banana_clicker_slot := (\<lambda>n. None)(1 \<mapsto> EmptyText)\<rparr>)))
   \<and> startup (\<lambda>t. 7) (emptyStorage\<lparr>banana_clicker_meta := Some EmptyText, banana_clicker_count := Some ''7''\<rparr>)
       = Inr (saveMeta ((initial (emptyStorage\<lparr>banana_clicker_meta := Some EmptyText, banana_clicker_count := Some ''7''\<rparr>))\<lparr>bananas := 7\<rparr>))"
  using unparseable_record_raises [of "initial brokenStorage" 1 brokenMeta "\<lambda>t. 7"]
    unparseable_record_raises [of "initial (emptyStorage\<lparr>banana_clicker_slot := (\<lambda>n. None)(1 \<mapsto> EmptyText)\<rparr>)" 1
       "emptyStorage\<lparr>banana_clicker_upgrades := Some Unparseable\<rparr>" "\<lambda>t. 7"]
    unparseable_record_raises [of fresh 1
       "emptyStorage\<lparr>banana_clicker_meta := Some EmptyText, banana_clicker_count := Some ''7''\<rparr>" "\<lambda>t. 7"]
  by (simp add: brokenStorage_def brokenMeta_def emptyStorage_def initial_def)

text \<open>
  Where the claim as written fails: slot 1 holds a record that does not parse and
  loading it throws; the meta record does not parse and mounting throws. Neither is
  treated as absent.
\<close>

theorem unparseable_record_counterexample:
  "banana_clicker_slot (storage (initial brokenStorage)) 1 = Some Unparseable
   \<and> handleLoadFromSlot 1 (initial brokenStorage) = Inl SyntaxError
   \<and> banana_clicker_meta brokenMeta = Some Unparseable
   \<and> startup (\<lambda>t. 0) brokenMeta = Inl SyntaxError"
  by (simp add: handleLoadFromSlot_def startup_def loadOnMount_def initial_def
        brokenStorage_def brokenMeta_def emptyStorage_def)

subsection \<open>C7: loading an empty slot\<close>

text \<open>
  C7. When the slot has no record, \<open>handleLoadFromSlot\<close> throws nothing, shows the
  message that the slot is empty, and leaves every field of the state (balance, owned
  ids, diamonds, slot count) and the storage as they were.
\<close>

theorem load_empty_slot:
  "banana_clicker_slot (storage w) n = None \<Longrightarrow>
     handleLoadFromSlot n w = Inr (alert SlotIsEmpty w)
     \<and> dispatch w (LoadFromSlot n) = w\<lparr>alerts := alerts w @ [SlotIsEmpty]\<rparr>
     \<and> bananas (dispatch w (LoadFromSlot n)) = bananas w
     \<and> upgrades (dispatch w (LoadFromSlot n)) = upgrades w
     \<and> diamonds (dispatch w (LoadFromSlot n)) = diamonds w
     \<and> slotCount (dispatch w (LoadFromSlot n)) = slotCount w
     \<and> storage (dispatch w (LoadFromSlot n)) = storage w"
  by (simp add: handleLoadFromSlot_def dispatch_def metaEffect_def alert_def)

theorem load_empty_slot_witness:
  "handleLoadFromSlot 2 fresh = Inr (alert SlotIsEmpty fresh)
   \<and> dispatch fresh (LoadFromSlot 2) = fresh\<lparr>alerts := [SlotIsEmpty]\<rparr>"
  using load_empty_slot [of fresh 2]
  by (simp add: fresh_def initial_def emptyStorage_def alert_def)

subsection \<open>C8: buying a slot\<close>



subsection \<open>C9: the diamond shop sells nothing\<close>

text \<open>
  C9. A click on the buy button of the diamond shop changes nothing at all, whatever the
  amount selected. No sequence of openings and closings of the diamond shop, changes
  of the amount and clicks on its buy button changes the balance, the owned ids, the
  diamonds, the slot count, the storage or the messages shown; and whenever the diamond
  shop is shown it carries the notice that diamonds cannot be bought.
\<close>

theorem diamond_purchase_unavailable:
  "handle AttemptBuyDiamonds w = Inr w
   \<and> dispatch w AttemptBuyDiamonds = w
   \<and> (list_all diamondShopEvent es \<longrightarrow>
        bananas (run w es) = bananas w \<and> upgrades (run w es) = upgrades w
        \<and> diamonds (run w es) = diamonds w \<and> slotCount (run w es) = slotCount w
        \<and> storage (run w es) = storage w \<and> alerts (run w es) = alerts w)
   \<and> (showDiamondShop w \<longrightarrow>
        diamondShop w = Some (diamondPurchaseAmount w, ''CANNOT BUY YET''))"
  using diamondShopEvent_run [of es w]
  by (simp add: dispatch_def metaEffect_def diamondShop_def)

theorem diamond_purchase_unavailable_witness:
  "diamonds (run kept [OpenDiamondShop, SetDiamondPurchaseAmount 1000, AttemptBuyDiamonds,
      AttemptBuyDiamonds, CloseDiamondShop, OpenDiamondShop, AttemptBuyDiamonds]) = 2
   \<and> diamondShop (fresh\<lparr>showDiamondShop := True, diamondPurchaseAmount := 1000\<rparr>)
       = Some (1000, ''CANNOT BUY YET'')"
  using diamond_purchase_unavailable [of kept "[OpenDiamondShop, SetDiamondPurchaseAmount 1000,
      AttemptBuyDiamonds, AttemptBuyDiamonds, CloseDiamondShop, OpenDiamondShop, AttemptBuyDiamonds]"]
    diamond_purchase_unavailable [of "fresh\<lparr>showDiamondShop := True, diamondPurchaseAmount := 1000\<rparr>" "[]"]
  by (simp add: fresh_def kept_def initial_def)

subsection \<open>C10: saving changes no state\<close>

text \<open>
  C10. \<open>handleSaveToSlot\<close> leaves the balance, the owned ids, the diamonds and the slot
  count as they were: it writes the record of the slot, shows its message, and does
  nothing else; the meta record is not rewritten either.
\<close>

theorem save_frame:
  "handleSaveToSlot now n w =
     w\<lparr>storage := (storage w)\<lparr>banana_clicker_slot := (banana_clicker_slot (storage w))
          (n \<mapsto> Stringified \<lparr>save_bananas = bananas w, save_upgrades = upgrades w, lastSaved = now\<rparr>)\<rparr>,
       alerts := alerts w @ [SavedToSlot n]\<rparr>
   \<and> bananas (handleSaveToSlot now n w) = bananas w
   \<and> upgrades (handleSaveToSlot now n w) = upgrades w
   \<and> diamonds (handleSaveToSlot now n w) = diamonds w
   \<and> slotCount (handleSaveToSlot now n w) = slotCount w
   \<and> dispatch w (SaveToSlot n now) = handleSaveToSlot now n w"
  by (simp add: handleSaveToSlot_def alert_def JSON_stringify_def dispatch_def metaEffect_def)

theorem save_frame_witness:
  "bananas (handleSaveToSlot ''noon'' 1 kept) = 0
   \<and> diamonds (handleSaveToSlot ''noon'' 1 kept) = 2
   \<and> slotCount (handleSaveToSlot ''noon'' 1 kept) = 3
   \<and> upgrades (handleSaveToSlot ''noon'' 1 kept) = []
   \<and> banana_clicker_slot (storage (handleSaveToSlot ''noon'' 1 kept)) 1
       = Some (Stringified \<lparr>save_bananas = 0, save_upgrades = [], lastSaved = ''noon''\<rparr>)"
  using save_frame [of "''noon''" 1 kept]
  by (simp add: kept_def initial_def)

end
